theory Spec2Isabelle
  imports Main "HOL-Library.Sublist" "HOL-Library.List_Lexorder" "HOL-Library.Char_ord"
begin

section \<open>JavaScript values, objects and errors\<close>

text \<open>
  The blog backend is JavaScript. A post is a plain object: a finite map from property
  names to values, where a property can be present and hold \<open>undefined\<close>, which is not
  the same as being absent (the spread \<open>{...a, ...b}\<close> copies a present \<open>undefined\<close>).
  Values are the ones JSON and the routes can produce, plus dates. Numbers are integers
  here (timestamps and counters); \<open>NaN\<close> is not a value of the model.
  Arrays and dates are objects in JavaScript and are compared by reference there; the model
  compares them structurally, which agrees with the source on primitives (the ids,
  categories and status values the routes and the seed data produce are strings).
\<close>

datatype jsval =
    JUndefined
  | JNull
  | JBool bool
  | JNum int
  | JStr string
  | JDate int
  | JArr "jsval list"

type_synonym jsobj = "string \<rightharpoonup> jsval"

text \<open>Reading a property, \<open>o.k\<close>: an absent property reads as \<open>undefined\<close>.\<close>

definition get_prop :: "jsobj \<Rightarrow> string \<Rightarrow> jsval" where
  "get_prop ob k = (case ob k of None \<Rightarrow> JUndefined | Some v \<Rightarrow> v)"

text \<open>JavaScript truthiness (\<open>!!v\<close>, \<open>if (v)\<close>, \<open>v || d\<close>, \<open>filter(Boolean)\<close>).\<close>

fun truthy :: "jsval \<Rightarrow> bool" where
  "truthy JUndefined = False"
| "truthy JNull = False"
| "truthy (JBool b) = b"
| "truthy (JNum n) = (n \<noteq> 0)"
| "truthy (JStr s) = (s \<noteq> [])"
| "truthy (JDate t) = True"
| "truthy (JArr xs) = True"

text \<open>
  \<open>throw new Error(msg)\<close> is \<open>Error msg\<close>; a property access or method call on a value
  that has no such method is a \<open>TypeError\<close>; a statement the database engine refuses is a
  \<open>DbError\<close>. The spec's error kinds are messages of \<open>Error\<close>.
\<close>

datatype error = Error string | TypeError | DbError string

definition NotFound :: error where
  "NotFound = Error ''Post not found''"

definition InvalidArgument :: error where
  "InvalidArgument = Error ''Category name required''"

text \<open>
  The clock. Every \<open>new Date()\<close> and \<open>Date.now()\<close> reads it; a clock is the sequence of
  the readings still to come (\<open>clk 0\<close> is the next one), and a caller that has consumed
  \<open>k\<close> readings passes \<open>later k clk\<close> on.
\<close>

type_synonym clock = "nat \<Rightarrow> int"

definition later :: "nat \<Rightarrow> clock \<Rightarrow> clock" where
  "later k clk = (\<lambda>i. clk (i + k))"

text \<open>
  The built-ins of the runtime the code calls and the repository does not define:
  \<open>new Date(v)\<close> as the timestamp it denotes (\<open>None\<close> for an Invalid Date, whose
  \<open>getTime()\<close> is \<open>NaN\<close>), \<open>Date.prototype.toISOString\<close>, the decimal
  \<open>Number.prototype.toString\<close>, and \<open>JSON.stringify\<close> (a string, or \<open>undefined\<close>).
\<close>

record runtime =
  Date_of :: "jsval \<Rightarrow> int option"
  toISOString :: "int \<Rightarrow> string"
  num_toString :: "int \<Rightarrow> string"
  JSON_stringify :: "jsval \<Rightarrow> jsval"

section \<open>Strings\<close>

text \<open>
  \<open>String.prototype.toLowerCase\<close>, \<open>includes\<close> and \<open>trim\<close> on byte strings: letters
  \<open>A\<close>--\<open>Z\<close> are lowered, and the white space trimmed is the ASCII white space
  (tab, line feed, vertical tab, form feed, carriage return, space).
\<close>

definition lower_char :: "char \<Rightarrow> char" where
  "lower_char c =
     (if (65::int) \<le> of_char c \<and> of_char c \<le> (90::int) then char_of (of_char c + (32::int)) else c)"

definition toLowerCase :: "string \<Rightarrow> string" where
  "toLowerCase s = map lower_char s"

fun starts_with :: "string \<Rightarrow> string \<Rightarrow> bool" where
  "starts_with s [] = True"
| "starts_with [] (c # q) = False"
| "starts_with (d # s) (c # q) = (d = c \<and> starts_with s q)"

fun str_includes :: "string \<Rightarrow> string \<Rightarrow> bool" where
  "str_includes [] q = (q = [])"
| "str_includes (c # s) q = (starts_with (c # s) q \<or> str_includes s q)"

definition is_space :: "char \<Rightarrow> bool" where
  "is_space c = (of_char c \<in> {9::int, 10, 11, 12, 13, 32})"

definition str_trim :: "string \<Rightarrow> string" where
  "str_trim s = rev (dropWhile is_space (rev (dropWhile is_space s)))"

section \<open>The in-memory backend (class InMemoryDatabase)\<close>

text \<open>
  The state of the object: the \<open>posts\<close> array and the \<open>categories\<close> array. The
  comments, users and settings collections are not read or written by any operation
  modelled here and are left out. \<open>saveToFile\<close> writes a snapshot to disk and swallows
  its own errors, so it changes nothing of this state and cannot fail; it does not appear
  in the operations below.
\<close>

record memdb =
  posts :: "jsobj list"
  categories :: "string list"

text \<open>\<open>Array.prototype.findIndex\<close>: the first index that satisfies, \<open>None\<close> for \<open>-1\<close>.\<close>

fun findIndex :: "('a \<Rightarrow> bool) \<Rightarrow> 'a list \<Rightarrow> nat option" where
  "findIndex P [] = None"
| "findIndex P (x # xs) =
     (if P x then Some 0 else (case findIndex P xs of None \<Rightarrow> None | Some i \<Rightarrow> Some (Suc i)))"

text \<open>
  \<open>updatePost(id, updates)\<close>: look the post up by id, throw when there is none, else
  replace it by \<open>{...old, ...updates, updatedAt: new Date()}\<close> and return the new record.
\<close>

definition updatePost :: "clock \<Rightarrow> jsval \<Rightarrow> jsobj \<Rightarrow> memdb \<Rightarrow> error + (jsobj \<times> memdb)" where
  "updatePost clk ident updates st =
     (case findIndex (\<lambda>p. get_prop p ''id'' = ident) (posts st) of
        None \<Rightarrow> Inl (Error ''Post not found'')
      | Some index \<Rightarrow>
          Inr (((posts st ! index) ++ updates)(''updatedAt'' \<mapsto> JDate (clk 0)),
               st\<lparr>posts := (posts st)[index :=
                     ((posts st ! index) ++ updates)(''updatedAt'' \<mapsto> JDate (clk 0))]\<rparr>))"


text \<open>
  \<open>createPost(post)\<close>. The id is \<open>Date.now().toString()\<close>, and the spread
  \<open>{id, ...post, status, ...}\<close> lets an \<open>id\<close> property of \<open>post\<close> replace it. The clock
  is read for the id, for the default \<open>publishedDate\<close> when that expression is evaluated,
  and for \<open>createdAt\<close> and \<open>updatedAt\<close>. Nothing is looked up in the existing posts.
\<close>

definition createPost :: "runtime \<Rightarrow> clock \<Rightarrow> jsobj \<Rightarrow> memdb \<Rightarrow> jsobj \<times> memdb" where
  "createPost rt clk post st =
     (let status = (if get_prop post ''status'' = JStr ''published''
                    then JStr ''published'' else JStr ''draft'');
          reads = (if status = JStr ''published'' \<and> \<not> truthy (get_prop post ''publishedDate'')
                   then 1 else 0);
          newPost = ([''id'' \<mapsto> JStr (num_toString rt (clk 0))] ++ post)
            (''status'' \<mapsto> status,
             ''featured'' \<mapsto> JBool (truthy (get_prop post ''featured'')),
             ''publishedDate'' \<mapsto>
                (if status = JStr ''published''
                 then (if truthy (get_prop post ''publishedDate'')
                       then get_prop post ''publishedDate''
                       else JStr (toISOString rt (clk 1)))
                 else get_prop post ''publishedDate''),
             ''createdAt'' \<mapsto> JDate (clk (1 + reads)),
             ''updatedAt'' \<mapsto> JDate (clk (2 + reads)),
             ''commentCount'' \<mapsto> JNum 0)
      in (newPost, st\<lparr>posts := posts st @ [newPost]\<rparr>))"

definition getPostById :: "jsval \<Rightarrow> memdb \<Rightarrow> jsobj option" where
  "getPostById ident st = find (\<lambda>p. get_prop p ''id'' = ident) (posts st)"

definition getPostBySlug :: "jsval \<Rightarrow> memdb \<Rightarrow> jsobj option" where
  "getPostBySlug slug st = find (\<lambda>p. get_prop p ''slug'' = slug) (posts st)"

definition deletePost :: "jsval \<Rightarrow> memdb \<Rightarrow> error + (jsobj \<times> memdb)" where
  "deletePost ident st =
     (case findIndex (\<lambda>p. get_prop p ''id'' = ident) (posts st) of
        None \<Rightarrow> Inl (Error ''Post not found'')
      | Some index \<Rightarrow>
          Inr (posts st ! index,
               st\<lparr>posts := take index (posts st) @ drop (Suc index) (posts st)\<rparr>))"





text \<open>
  \<open>getCategories()\<close>. Spreading a \<open>Set\<close> lists its elements in insertion order, each
  once: the first occurrences, in order.
\<close>

definition set_elements :: "'a list \<Rightarrow> 'a list" where
  "set_elements xs = rev (remdups (rev xs))"

definition getCategories :: "memdb \<Rightarrow> jsval list" where
  "getCategories st =
     set_elements
       (map JStr (categories st)
        @ set_elements (filter truthy (map (\<lambda>p. get_prop p ''category'') (posts st)))
        @ [JStr ''Algemeen''])"

text \<open>
  \<open>addCategory(name)\<close>: \<open>(name || '').trim()\<close> is a TypeError on a truthy value that is
  not a string; an empty result throws; the name is pushed unless some stored category
  has the same lower-case form.
\<close>

definition name_or_empty :: "jsval \<Rightarrow> error + string" where
  "name_or_empty name =
     (if \<not> truthy name then Inr []
      else (case name of JStr s \<Rightarrow> Inr (str_trim s) | _ \<Rightarrow> Inl TypeError))"

definition addCategory :: "jsval \<Rightarrow> memdb \<Rightarrow> error + (jsval list \<times> memdb)" where
  "addCategory name st =
     (case name_or_empty name of
        Inl e \<Rightarrow> Inl e
      | Inr n \<Rightarrow>
          if n = [] then Inl (Error ''Category name required'')
          else if list_ex (\<lambda>c. toLowerCase c = toLowerCase n) (categories st)
               then Inr (getCategories st, st)
               else Inr (getCategories (st\<lparr>categories := categories st @ [n]\<rparr>),
                         st\<lparr>categories := categories st @ [n]\<rparr>))"

text \<open>
  \<open>searchPosts(query)\<close>: the query is lowered; a post is kept when its lowered title or
  its lowered content includes it, or when \<open>tag.includes(q)\<close> holds for some tag (the tag
  is not lowered). \<open>||\<close> and \<open>some\<close> stop at the first true operand. A title or content
  that is not a string, a \<open>tags\<close> that is not an array and a tag with no \<open>includes\<close> method
  are TypeErrors, and \<open>filter\<close> passes the first one on. On a tag that is itself an array,
  \<open>includes\<close> is the array's: membership of \<open>q\<close>.
\<close>

definition lowered_includes :: "jsval \<Rightarrow> string \<Rightarrow> error + bool" where
  "lowered_includes v q =
     (case v of JStr s \<Rightarrow> Inr (str_includes (toLowerCase s) q) | _ \<Rightarrow> Inl TypeError)"

definition tag_includes :: "jsval \<Rightarrow> string \<Rightarrow> error + bool" where
  "tag_includes tag q =
     (case tag of
        JStr s \<Rightarrow> Inr (str_includes s q)
      | JArr xs \<Rightarrow> Inr (JStr q \<in> set xs)
      | _ \<Rightarrow> Inl TypeError)"

fun some_tag :: "jsval list \<Rightarrow> string \<Rightarrow> error + bool" where
  "some_tag [] q = Inr False"
| "some_tag (tag # tags) q =
     (case tag_includes tag q of
        Inl e \<Rightarrow> Inl e
      | Inr True \<Rightarrow> Inr True
      | Inr False \<Rightarrow> some_tag tags q)"

definition post_matches :: "string \<Rightarrow> jsobj \<Rightarrow> error + bool" where
  "post_matches q p =
     (case lowered_includes (get_prop p ''title'') q of
        Inl e \<Rightarrow> Inl e
      | Inr True \<Rightarrow> Inr True
      | Inr False \<Rightarrow>
          (case lowered_includes (get_prop p ''content'') q of
             Inl e \<Rightarrow> Inl e
           | Inr True \<Rightarrow> Inr True
           | Inr False \<Rightarrow>
               (case get_prop p ''tags'' of
                  JArr tags \<Rightarrow> some_tag tags q
                | _ \<Rightarrow> Inl TypeError)))"

fun filter_posts :: "(jsobj \<Rightarrow> error + bool) \<Rightarrow> jsobj list \<Rightarrow> error + jsobj list" where
  "filter_posts f [] = Inr []"
| "filter_posts f (p # ps) =
     (case f p of
        Inl e \<Rightarrow> Inl e
      | Inr keep \<Rightarrow>
          (case filter_posts f ps of
             Inl e \<Rightarrow> Inl e
           | Inr rest \<Rightarrow> Inr (if keep then p # rest else rest)))"

definition searchPosts :: "string \<Rightarrow> memdb \<Rightarrow> error + jsobj list" where
  "searchPosts query st = filter_posts (post_matches (toLowerCase query)) (posts st)"

text \<open>
  \<open>loadSampleData()\<close>: the three sample posts. The state a fresh process starts from is
  the constructor's, with the sample posts loaded (no data file present).
\<close>

definition sample_image :: string where
  "sample_image = ''https://images.unsplash.com/photo-1552664730-d307ca884978?w=600&h=400&fit=crop''"

definition sample_post_1 :: jsobj where
  "sample_post_1 =
     [''id'' \<mapsto> JStr ''1'',
      ''title'' \<mapsto> JStr ''Hoe organiseer je de perfecte pubquiz?'',
      ''slug'' \<mapsto> JStr ''perfecte-pubquiz-organiseren'',
      ''excerpt'' \<mapsto> JStr ''Een stap-voor-stap gids met 10 gouden tips voor het organiseren van een pubquiz.'',
      ''content'' \<mapsto> JStr (''# Hoe organiseer je de perfecte pubquiz?'' @ [CHR 0x0A, CHR 0x0A]
                               @ ''Organiseren van een pubquiz...''),
      ''author'' \<mapsto> JStr ''PubQuiz Team'',
      ''category'' \<mapsto> JStr ''Tips & Tricks'',
      ''tags'' \<mapsto> JArr [JStr ''pubquiz'', JStr ''tips'', JStr ''organiseren''],
      ''image'' \<mapsto> JStr sample_image,
      ''publishedDate'' \<mapsto> JStr ''2025-11-12'',
      ''readTime'' \<mapsto> JStr ''5 min'',
      ''featured'' \<mapsto> JBool True,
      ''status'' \<mapsto> JStr ''published'',
      ''createdAt'' \<mapsto> JDate 1762905600000,
      ''updatedAt'' \<mapsto> JDate 1762905600000,
      ''commentCount'' \<mapsto> JNum 0]"

definition sample_post_2 :: jsobj where
  "sample_post_2 =
     [''id'' \<mapsto> JStr ''2'',
      ''title'' \<mapsto> JStr ''Team Building Door Quiz: Case Study TechCorp'',
      ''slug'' \<mapsto> JStr ''team-building-case-study'',
      ''excerpt'' \<mapsto> JStr ''Lees hoe TechCorp hun team building transformeerde met PubQuiz.pro.'',
      ''content'' \<mapsto> JStr (''# Team Building Door Quiz'' @ [CHR 0x0A, CHR 0x0A]
                               @ ''Team building...''),
      ''author'' \<mapsto> JStr ''Sarah Jansen'',
      ''category'' \<mapsto> JStr ''Case Studies'',
      ''tags'' \<mapsto> JArr [JStr ''team-building'', JStr ''case-study''],
      ''image'' \<mapsto> JStr sample_image,
      ''publishedDate'' \<mapsto> JStr ''2025-11-08'',
      ''readTime'' \<mapsto> JStr ''6 min'',
      ''featured'' \<mapsto> JBool True,
      ''status'' \<mapsto> JStr ''published'',
      ''createdAt'' \<mapsto> JDate 1762560000000,
      ''updatedAt'' \<mapsto> JDate 1762560000000,
      ''commentCount'' \<mapsto> JNum 0]"

definition sample_post_3 :: jsobj where
  "sample_post_3 =
     [''id'' \<mapsto> JStr ''3'',
      ''title'' \<mapsto> JStr ''Horeca Quiz Avonden: Meer Gasten, Meer Inkomsten'',
      ''slug'' \<mapsto> JStr ''horeca-quiz-meer-bezoekers'',
      ''excerpt'' \<mapsto> JStr ''Hoe horecaondernemers quiz avonden gebruiken om meer gasten te trekken.'',
      ''content'' \<mapsto> JStr (''# Horeca Quiz Avonden'' @ [CHR 0x0A, CHR 0x0A]
                               @ ''Quiz avonden zijn...''),
      ''author'' \<mapsto> JStr ''Mark van Dijk'',
      ''category'' \<mapsto> JStr ''Horeca'',
      ''tags'' \<mapsto> JArr [JStr ''horeca'', JStr ''marketing''],
      ''image'' \<mapsto> JStr sample_image,
      ''publishedDate'' \<mapsto> JStr ''2025-11-03'',
      ''readTime'' \<mapsto> JStr ''7 min'',
      ''featured'' \<mapsto> JBool False,
      ''status'' \<mapsto> JStr ''published'',
      ''createdAt'' \<mapsto> JDate 1762128000000,
      ''updatedAt'' \<mapsto> JDate 1762128000000,
      ''commentCount'' \<mapsto> JNum 0]"

definition constructed :: memdb where
  "constructed =
     \<lparr>posts = [],
      categories = [''Tips & Tricks'', ''Case Studies'', ''Horeca'', ''Team Building'',
                    ''Onderwijs'', ''Product Updates'', ''Algemeen'']\<rparr>"

definition loadSampleData :: "memdb \<Rightarrow> memdb" where
  "loadSampleData st = st\<lparr>posts := [sample_post_1, sample_post_2, sample_post_3]\<rparr>"

definition seed_state :: memdb where
  "seed_state = loadSampleData constructed"

section \<open>The admin route PUT /posts/:id\<close>

text \<open>
  The handler destructures ten properties from the request body and passes an object
  literal with all ten keys to \<open>updatePost\<close>: a property the body lacks is passed as a
  present key holding \<open>undefined\<close>. A thrown error becomes a 500 response.
\<close>

definition put_fields :: "string list" where
  "put_fields = [''title'', ''slug'', ''excerpt'', ''content'', ''category'', ''tags'',
                 ''image'', ''author'', ''status'', ''featured'']"

definition put_updates :: "jsobj \<Rightarrow> jsobj" where
  "put_updates body = map_of (map (\<lambda>k. (k, get_prop body k)) put_fields)"

datatype response = PostUpdated jsobj | ServerError error

definition put_post :: "clock \<Rightarrow> string \<Rightarrow> jsobj \<Rightarrow> memdb \<Rightarrow> response \<times> memdb" where
  "put_post clk ident body st =
     (case updatePost clk (JStr ident) (put_updates body) st of
        Inl e \<Rightarrow> (ServerError e, st)
      | Inr (updated, st') \<Rightarrow> (PostUpdated updated, st'))"

section \<open>The publish scheduler\<close>

text \<open>
  The timer callback of \<open>startServer\<close> works on whatever object \<open>getDatabase()\<close> returned:
  it reads the object's \<open>posts\<close> property and calls its \<open>updatePost\<close> method. A backend
  is modelled by these two members. \<open>db_posts\<close> is \<open>None\<close> when the object has no
  \<open>posts\<close> property (\<open>db.posts || []\<close> is then the empty array). \<open>db_updatePost\<close> takes
  the entries of the object literal passed to it and returns the state after the call, or
  the error the returned promise is rejected with.
\<close>

record 's backend =
  db_posts :: "'s \<Rightarrow> jsobj list option"
  db_updatePost :: "clock \<Rightarrow> jsval \<Rightarrow> (string \<times> jsval) list \<Rightarrow> 's \<Rightarrow> error + 's"

definition posts_or_empty :: "'s backend \<Rightarrow> 's \<Rightarrow> jsobj list" where
  "posts_or_empty db st = (case db_posts db st of None \<Rightarrow> [] | Some ps \<Rightarrow> ps)"

text \<open>What the callback writes to the console.\<close>

datatype log_entry =
    LogPublished jsval jsval string
  | LogError error

text \<open>
  The test of the loop body: \<open>p.status !== 'published' && p.scheduledPublishDate\<close>, then
  \<open>when = new Date(p.scheduledPublishDate)\<close> with \<open>!isNaN(when.getTime()) && when <= now\<close>.
\<close>

definition due :: "runtime \<Rightarrow> int \<Rightarrow> jsobj \<Rightarrow> bool" where
  "due rt now p =
     (get_prop p ''status'' \<noteq> JStr ''published''
      \<and> truthy (get_prop p ''scheduledPublishDate'')
      \<and> (case Date_of rt (get_prop p ''scheduledPublishDate'') of
            None \<Rightarrow> False
          | Some when \<Rightarrow> when \<le> now))"

definition promotion :: "runtime \<Rightarrow> int \<Rightarrow> (string \<times> jsval) list" where
  "promotion rt t =
     [(''status'', JStr ''published''),
      (''publishedDate'', JStr (toISOString rt t)),
      (''scheduledPublishDate'', JUndefined)]"

text \<open>
  The \<open>for (const p of posts)\<close> loop, from index \<open>i\<close>. The array iterator reads the live
  array at each step (the in-memory \<open>updatePost\<close> replaces elements of that same array in
  place). The \<open>try\<close> block encloses the whole loop: a rejected \<open>updatePost\<close> leaves the
  loop, and the \<open>catch\<close> logs the error. Per promoted post the clock is read for
  \<open>publishedDate\<close>, inside \<open>updatePost\<close>, and for the log line.
\<close>

partial_function (option) tick_loop ::
  "runtime \<Rightarrow> 's backend \<Rightarrow> int \<Rightarrow> clock \<Rightarrow> nat \<Rightarrow> 's \<Rightarrow> log_entry list
     \<Rightarrow> ('s \<times> log_entry list) option" where
  "tick_loop rt db now clk i st log =
     (if i < length (posts_or_empty db st) then
        (if due rt now (posts_or_empty db st ! i) then
           (case db_updatePost db (later 1 clk) (get_prop (posts_or_empty db st ! i) ''id'')
                   (promotion rt (clk 0)) st of
              Inl e \<Rightarrow> Some (st, log @ [LogError e])
            | Inr st' \<Rightarrow>
                tick_loop rt db now (later 3 clk) (Suc i) st'
                  (log @ [LogPublished (get_prop (posts_or_empty db st ! i) ''id'')
                            (get_prop (posts_or_empty db st ! i) ''slug'')
                            (toISOString rt (clk 2))]))
         else tick_loop rt db now clk (Suc i) st log)
      else Some (st, log))"

definition scheduler_tick ::
  "runtime \<Rightarrow> 's backend \<Rightarrow> clock \<Rightarrow> 's \<Rightarrow> ('s \<times> log_entry list) option" where
  "scheduler_tick rt db clk st = tick_loop rt db (clk 0) (later 1 clk) 0 st []"

text \<open>The in-memory database as the scheduler sees it.\<close>

definition memory_backend :: "memdb backend" where
  "memory_backend =
     \<lparr>db_posts = (\<lambda>st. Some (posts st)),
      db_updatePost = (\<lambda>clk ident entries st.
         (case updatePost clk ident (map_of entries) st of
            Inl e \<Rightarrow> Inl e
          | Inr (updated, st') \<Rightarrow> Inr st'))\<rparr>"

section \<open>The PostgreSQL backend (class PostgreSQLDatabase)\<close>

text \<open>
  The object holds a connection pool and nothing else: it has no \<open>posts\<close> property. Its
  data are the tables of the database. A table is the list of its rows; a row of
  \<open>posts\<close> maps column names to the values the driver hands back (text as a string, a
  timestamp as a date, jsonb as the parsed value, NULL as \<open>null\<close>); of \<open>categories\<close>
  only the \<open>name\<close> column is kept.
\<close>

record pgdb =
  posts_table :: "jsobj list"
  categories_table :: "string list"

text \<open>
  What the database engine does and the repository does not define: the conversion of a
  statement parameter to the type of the column it is assigned to (an error when the
  value is not of that type), \<open>LOWER\<close>, \<open>LIKE\<close>, and the text form of a jsonb value.
\<close>

record sql_engine =
  to_column :: "string \<Rightarrow> jsval \<Rightarrow> error + jsval"
  sql_lower :: "string \<Rightarrow> string"
  sql_like :: "string \<Rightarrow> string \<Rightarrow> bool"
  jsonb_text :: "jsval \<Rightarrow> string"

text \<open>
  The constraints \<open>createTables\<close> declares on \<open>posts\<close>: \<open>id\<close> is the primary key,
  \<open>slug\<close> is \<open>UNIQUE NOT NULL\<close>, \<open>title\<close> is \<open>NOT NULL\<close>.
\<close>

definition posts_constraints :: "jsobj list \<Rightarrow> bool" where
  "posts_constraints rows =
     (distinct (map (\<lambda>r. get_prop r ''id'') rows)
      \<and> distinct (map (\<lambda>r. get_prop r ''slug'') rows)
      \<and> list_all (\<lambda>r. get_prop r ''id'' \<noteq> JNull \<and> get_prop r ''slug'' \<noteq> JNull
                       \<and> get_prop r ''title'' \<noteq> JNull) rows)"

text \<open>
  \<open>WHERE id = $1\<close>. Ids reach this backend as route parameters, which are strings; for
  any other value the model selects no row.
\<close>

definition id_is :: "jsval \<Rightarrow> jsobj \<Rightarrow> bool" where
  "id_is ident r = (case ident of JStr s \<Rightarrow> get_prop r ''id'' = JStr s | _ \<Rightarrow> False)"

definition or_else :: "jsval \<Rightarrow> jsval \<Rightarrow> jsval" where
  "or_else v d = (if truthy v then v else d)"

definition mapPostFromDb :: "jsobj \<Rightarrow> jsobj" where
  "mapPostFromDb row =
     [''id'' \<mapsto> get_prop row ''id'',
      ''title'' \<mapsto> get_prop row ''title'',
      ''slug'' \<mapsto> get_prop row ''slug'',
      ''excerpt'' \<mapsto> get_prop row ''excerpt'',
      ''content'' \<mapsto> get_prop row ''content'',
      ''author'' \<mapsto> get_prop row ''author'',
      ''category'' \<mapsto> get_prop row ''category'',
      ''tags'' \<mapsto> or_else (get_prop row ''tags'') (JArr []),
      ''image'' \<mapsto> get_prop row ''image'',
      ''publishedDate'' \<mapsto> get_prop row ''published_date'',
      ''readTime'' \<mapsto> get_prop row ''read_time'',
      ''featured'' \<mapsto> get_prop row ''featured'',
      ''status'' \<mapsto> get_prop row ''status'',
      ''createdAt'' \<mapsto> get_prop row ''created_at'',
      ''updatedAt'' \<mapsto> get_prop row ''updated_at'',
      ''commentCount'' \<mapsto> or_else (get_prop row ''comment_count'') (JNum 0)]"

text \<open>\<open>getPostById(id)\<close>: the first selected row, mapped, or \<open>null\<close> (\<open>None\<close>).\<close>

definition pg_getPostById :: "jsval \<Rightarrow> pgdb \<Rightarrow> jsobj option" where
  "pg_getPostById ident db =
     (case find (id_is ident) (posts_table db) of
        None \<Rightarrow> None
      | Some row \<Rightarrow> Some (mapPostFromDb row))"

text \<open>
  \<open>updatePost(id, updates)\<close>. Each key is rewritten by
  \<open>key.replace(/[A-Z]/g, letter => `_${letter.toLowerCase()}`)\<close>; the entries whose column is
  in \<open>allowedFields\<close> become the \<open>SET\<close> list (\<open>tags\<close> through \<open>JSON.stringify\<close>). With no
  such entry the stored record is returned as it is. Otherwise \<open>updated_at\<close> is added and
  one \<open>UPDATE ... WHERE id = $n\<close> runs; what the method returns is \<open>getPostById(id)\<close>
  after it. There is no test that a row was found.
\<close>

definition is_upper :: "char \<Rightarrow> bool" where
  "is_upper c = ((65::int) \<le> of_char c \<and> of_char c \<le> (90::int))"

definition snake_case :: "string \<Rightarrow> string" where
  "snake_case k = concat (map (\<lambda>c. if is_upper c then [CHR ''_'', lower_char c] else [c]) k)"

definition allowedFields :: "string list" where
  "allowedFields = [''title'', ''slug'', ''excerpt'', ''content'', ''author'', ''category'',
                    ''tags'', ''image'', ''published_date'', ''read_time'', ''featured'',
                    ''status'']"

definition set_list :: "runtime \<Rightarrow> (string \<times> jsval) list \<Rightarrow> (string \<times> jsval) list" where
  "set_list rt entries =
     map (\<lambda>(k, v). (snake_case k, if snake_case k = ''tags'' then JSON_stringify rt v else v))
       (filter (\<lambda>(k, v). snake_case k \<in> set allowedFields) entries)"

fun cast_all :: "sql_engine \<Rightarrow> (string \<times> jsval) list \<Rightarrow> error + (string \<times> jsval) list" where
  "cast_all eng [] = Inr []"
| "cast_all eng ((c, v) # rest) =
     (case to_column eng c v of
        Inl e \<Rightarrow> Inl e
      | Inr w \<Rightarrow>
          (case cast_all eng rest of
             Inl e \<Rightarrow> Inl e
           | Inr ws \<Rightarrow> Inr ((c, w) # ws)))"

text \<open>
  \<open>UPDATE posts SET ... WHERE id = $n\<close>: refused when a column is assigned twice, when a
  parameter does not convert, or when the table would break a constraint; else every
  selected row gets the converted values.
\<close>

definition update_posts ::
  "sql_engine \<Rightarrow> (string \<times> jsval) list \<Rightarrow> jsval \<Rightarrow> pgdb \<Rightarrow> error + pgdb" where
  "update_posts eng sets ident db =
     (if \<not> distinct (map fst sets) then Inl (DbError ''multiple assignments to same column'')
      else
        (case cast_all eng sets of
           Inl e \<Rightarrow> Inl e
         | Inr vals \<Rightarrow>
             if posts_constraints
                  (map (\<lambda>r. if id_is ident r then r ++ map_of vals else r) (posts_table db))
             then Inr (db\<lparr>posts_table :=
                    map (\<lambda>r. if id_is ident r then r ++ map_of vals else r) (posts_table db)\<rparr>)
             else Inl (DbError ''constraint violation'')))"

definition pg_updatePost ::
  "runtime \<Rightarrow> sql_engine \<Rightarrow> clock \<Rightarrow> jsval \<Rightarrow> (string \<times> jsval) list \<Rightarrow> pgdb
     \<Rightarrow> error + (jsobj option \<times> pgdb)" where
  "pg_updatePost rt eng clk ident entries db =
     (if set_list rt entries = [] then Inr (pg_getPostById ident db, db)
      else
        (case update_posts eng (set_list rt entries @ [(''updated_at'', JDate (clk 0))]) ident db of
           Inl e \<Rightarrow> Inl e
         | Inr db' \<Rightarrow> Inr (pg_getPostById ident db', db')))"

text \<open>
  \<open>getCategories()\<close>: \<open>SELECT name FROM categories ORDER BY name\<close> (byte order), with
  \<open>'Algemeen'\<close> pushed when it is not among them. The \<open>posts\<close> table is not read.
\<close>

definition pg_getCategories :: "pgdb \<Rightarrow> string list" where
  "pg_getCategories db =
     (if ''Algemeen'' \<in> set (sort (categories_table db))
      then sort (categories_table db)
      else sort (categories_table db) @ [''Algemeen''])"

text \<open>
  \<open>addCategory(name)\<close>: \<open>INSERT INTO categories (name) VALUES ($1) ON CONFLICT (name) DO
  NOTHING\<close>. The column is \<open>VARCHAR(255) UNIQUE\<close>: a longer name is refused, and the
  conflict is on the exact name.
\<close>

definition pg_addCategory :: "jsval \<Rightarrow> pgdb \<Rightarrow> error + (string list \<times> pgdb)" where
  "pg_addCategory name db =
     (case name_or_empty name of
        Inl e \<Rightarrow> Inl e
      | Inr n \<Rightarrow>
          if n = [] then Inl (Error ''Category name required'')
          else if 255 < length n then Inl (DbError ''value too long for type character varying(255)'')
          else if n \<in> set (categories_table db) then Inr (pg_getCategories db, db)
          else Inr (pg_getCategories (db\<lparr>categories_table := categories_table db @ [n]\<rparr>),
                    db\<lparr>categories_table := categories_table db @ [n]\<rparr>))"






text \<open>The PostgreSQL database as the scheduler sees it.\<close>

definition postgres_backend :: "runtime \<Rightarrow> sql_engine \<Rightarrow> pgdb backend" where
  "postgres_backend rt eng =
     \<lparr>db_posts = (\<lambda>db. None),
      db_updatePost = (\<lambda>clk ident entries db.
         (case pg_updatePost rt eng clk ident entries db of
            Inl e \<Rightarrow> Inl e
          | Inr (updated, db') \<Rightarrow> Inr db'))\<rparr>"

section \<open>A sample runtime and a sample engine\<close>

text \<open>
  Concrete built-ins for evaluating the operations on examples: a runtime that knows one
  instant, and an engine that stores every parameter as it is and matches a pattern by
  the text between its \<open>%\<close> signs.
\<close>

definition sample_runtime :: runtime where
  "sample_runtime =
     \<lparr>Date_of = (\<lambda>v. case v of
                    JStr s \<Rightarrow> (if s = ''2025-01-01T00:00:00.000Z'' then Some 1735689600000 else None)
                  | JNum n \<Rightarrow> Some n
                  | JDate t \<Rightarrow> Some t
                  | _ \<Rightarrow> None),
      toISOString = (\<lambda>t. ''2025-01-01T00:00:00.000Z''),
      num_toString = (\<lambda>n. ''1735689600000''),
      JSON_stringify = (\<lambda>v. JStr ''[]'')\<rparr>"

definition sample_engine :: sql_engine where
  "sample_engine =
     \<lparr>to_column = (\<lambda>c v. Inr v),
      sql_lower = toLowerCase,
      sql_like = (\<lambda>s pat. str_includes s (filter (\<lambda>c. c \<noteq> CHR ''%'') pat)),
      jsonb_text = (\<lambda>v. ''[]'')\<rparr>"

text \<open>
  A sample database: the \<open>posts\<close> table holds the row of the first sample post, and one
  category is registered.
\<close>

definition sample_row :: jsobj where
  "sample_row =
     [''id'' \<mapsto> JStr ''1'',
      ''title'' \<mapsto> JStr ''Hoe organiseer je de perfecte pubquiz?'',
      ''slug'' \<mapsto> JStr ''perfecte-pubquiz-organiseren'',
      ''excerpt'' \<mapsto> JStr ''Een stap-voor-stap gids met 10 gouden tips voor het organiseren van een pubquiz.'',
      ''content'' \<mapsto> JStr (''# Hoe organiseer je de perfecte pubquiz?'' @ [CHR 0x0A, CHR 0x0A]
                               @ ''Organiseren van een pubquiz...''),
      ''author'' \<mapsto> JStr ''PubQuiz Team'',
      ''category'' \<mapsto> JStr ''Tips & Tricks'',
      ''tags'' \<mapsto> JArr [JStr ''pubquiz'', JStr ''tips'', JStr ''organiseren''],
      ''image'' \<mapsto> JStr sample_image,
      ''published_date'' \<mapsto> JDate 1762905600000,
      ''read_time'' \<mapsto> JStr ''5 min'',
      ''featured'' \<mapsto> JBool True,
      ''status'' \<mapsto> JStr ''published'',
      ''created_at'' \<mapsto> JDate 1762905600000,
      ''updated_at'' \<mapsto> JDate 1762905600000,
      ''comment_count'' \<mapsto> JNum 0]"

definition sample_pgdb :: pgdb where
  "sample_pgdb = \<lparr>posts_table = [sample_row], categories_table = [''Horeca'']\<rparr>"

section \<open>Notions used in the statements about the scheduler\<close>







definition sample_clock :: clock where
  "sample_clock = (\<lambda>i. 1735689660000)"


section \<open>Notions and examples used in the statements about the store\<close>





definition tagged_post :: jsobj where
  "tagged_post =
     [''id'' \<mapsto> JStr ''8'',
      ''title'' \<mapsto> JStr ''Weekly event'',
      ''slug'' \<mapsto> JStr ''weekly-event'',
      ''content'' \<mapsto> JStr ''Every Friday'',
      ''category'' \<mapsto> JStr ''Horeca'',
      ''tags'' \<mapsto> JArr [JStr ''Quiz''],
      ''featured'' \<mapsto> JBool False,
      ''status'' \<mapsto> JStr ''published'']"

definition tagged_state :: memdb where
  "tagged_state = \<lparr>posts = [tagged_post], categories = [''Horeca'', ''Algemeen'']\<rparr>"

definition news_row :: jsobj where
  "news_row =
     [''id'' \<mapsto> JStr ''1735689600000'',
      ''title'' \<mapsto> JStr ''Nieuw seizoen'',
      ''slug'' \<mapsto> JStr ''nieuw-seizoen'',
      ''excerpt'' \<mapsto> JStr ''Het nieuwe seizoen begint.'',
      ''content'' \<mapsto> JStr ''Het nieuwe seizoen begint.'',
      ''author'' \<mapsto> JStr ''Admin'',
      ''category'' \<mapsto> JStr ''Nieuws'',
      ''tags'' \<mapsto> JArr [],
      ''image'' \<mapsto> JStr [],
      ''published_date'' \<mapsto> JDate 1735689600000,
      ''read_time'' \<mapsto> JStr [],
      ''featured'' \<mapsto> JBool False,
      ''status'' \<mapsto> JStr ''published'',
      ''created_at'' \<mapsto> JDate 1735689600000,
      ''updated_at'' \<mapsto> JDate 1735689600000,
      ''comment_count'' \<mapsto> JNum 0]"

definition news_pgdb :: pgdb where
  "news_pgdb =
     \<lparr>posts_table = [sample_row, news_row],
      categories_table = [''Tips & Tricks'', ''Case Studies'', ''Horeca'', ''Team Building'',
                          ''Onderwijs'', ''Product Updates'', ''Algemeen'']\<rparr>"

definition duplicate_slug_post :: jsobj where
  "duplicate_slug_post =
     [''title'' \<mapsto> JStr ''Nog een pubquiz'',
      ''slug'' \<mapsto> JStr ''perfecte-pubquiz-organiseren'',
      ''excerpt'' \<mapsto> JStr ''Nog een gids.'',
      ''content'' \<mapsto> JStr ''Nog een gids.'',
      ''category'' \<mapsto> JStr ''Algemeen'',
      ''tags'' \<mapsto> JArr [],
      ''image'' \<mapsto> JStr [],
      ''author'' \<mapsto> JStr ''Admin'',
      ''status'' \<mapsto> JStr ''draft'',
      ''featured'' \<mapsto> JBool False,
      ''publishedDate'' \<mapsto> JUndefined,
      ''scheduledPublishDate'' \<mapsto> JUndefined]"


section \<open>Lookup by index\<close>

lemma findIndex_Some:
  "findIndex P xs = Some i \<Longrightarrow> i < length xs \<and> P (xs ! i) \<and> (\<forall>j<i. \<not> P (xs ! j)) \<and> find P xs = Some (xs ! i)"
proof (induction xs arbitrary: i)
  case Nil
  then show ?case by simp
next
  case (Cons x xs)
  show ?case
  proof (cases "P x")
    case True
    with Cons.prems show ?thesis by simp
  next
    case False
    with Cons.prems obtain j where j: "findIndex P xs = Some j" "i = Suc j"
      by (auto split: option.splits)
    from Cons.IH[OF j(1)] False j(2) show ?thesis
      by (auto simp: less_Suc_eq_0_disj)
  qed
qed

lemma findIndex_None: "findIndex P xs = None \<longleftrightarrow> (\<forall>x\<in>set xs. \<not> P x)"
  by (induction xs) (auto split: option.splits)

lemma findIndex_exists: "\<exists>x\<in>set xs. P x \<Longrightarrow> \<exists>i. findIndex P xs = Some i"
  using findIndex_None[of P xs] by (cases "findIndex P xs") auto

lemma updatePost_unknown:
  "\<forall>p\<in>set (posts st). get_prop p ''id'' \<noteq> ident \<Longrightarrow> updatePost clk ident updates st = Inl NotFound"
  using findIndex_None[of "\<lambda>p. get_prop p ''id'' = ident" "posts st"]
  by (simp add: updatePost_def NotFound_def)

lemma updatePost_known:
  assumes "findIndex (\<lambda>p. get_prop p ''id'' = ident) (posts st) = Some i"
  shows "updatePost clk ident updates st =
     Inr (((posts st ! i) ++ updates)(''updatedAt'' \<mapsto> JDate (clk 0)),
          st\<lparr>posts := (posts st)[i := ((posts st ! i) ++ updates)(''updatedAt'' \<mapsto> JDate (clk 0))]\<rparr>)"
  using assms by (simp add: updatePost_def)

lemma updatePost_Inr:
  assumes "updatePost clk ident updates st = Inr (updated, st')"
  shows "\<exists>i. findIndex (\<lambda>p. get_prop p ''id'' = ident) (posts st) = Some i
     \<and> updated = ((posts st ! i) ++ updates)(''updatedAt'' \<mapsto> JDate (clk 0))
     \<and> st' = st\<lparr>posts := (posts st)[i := updated]\<rparr>"
  using assms by (auto simp: updatePost_def split: option.splits)

section \<open>The merge of updatePost is keyed on the presence of a key\<close>

text \<open>
  Claim C10. In the in-memory backend the record \<open>updatePost\<close> stores and returns takes,
  for every key other than \<open>updatedAt\<close>, the value given in \<open>updates\<close> whenever the key
  is present there (also when that value is \<open>undefined\<close>), and keeps the stored value
  only when the key is absent from \<open>updates\<close>. The admin PUT route passes all ten of its
  fields, so every one of them that the request body lacks is stored as \<open>undefined\<close>.
\<close>

theorem updatePost_merge_by_presence:
  "(updatePost clk ident updates st = Inr (updated, st') \<longrightarrow>
      (\<exists>i. findIndex (\<lambda>p. get_prop p ''id'' = ident) (posts st) = Some i
         \<and> posts st' = (posts st)[i := updated]
         \<and> (\<forall>k. k \<noteq> ''updatedAt'' \<longrightarrow>
               updated k = (case updates k of Some v \<Rightarrow> Some v | None \<Rightarrow> (posts st ! i) k))))
   \<and> (put_post clk' ident' body st2 = (PostUpdated updated2, st2') \<longrightarrow>
        updated2 \<in> set (posts st2')
        \<and> (\<forall>k\<in>set put_fields. body k = None \<longrightarrow>
              updated2 k = Some JUndefined \<and> get_prop updated2 k = JUndefined))"
proof (rule conjI; rule impI)
  assume h: "updatePost clk ident updates st = Inr (updated, st')"
  from updatePost_Inr[OF h] obtain i where
    i: "findIndex (\<lambda>p. get_prop p ''id'' = ident) (posts st) = Some i"
    and u: "updated = ((posts st ! i) ++ updates)(''updatedAt'' \<mapsto> JDate (clk 0))"
    and s: "st' = st\<lparr>posts := (posts st)[i := updated]\<rparr>"
    by blast
  have "\<forall>k. k \<noteq> ''updatedAt'' \<longrightarrow>
          updated k = (case updates k of Some v \<Rightarrow> Some v | None \<Rightarrow> (posts st ! i) k)"
    unfolding u by (simp add: map_add_def split: option.splits)
  with i s show "\<exists>i. findIndex (\<lambda>p. get_prop p ''id'' = ident) (posts st) = Some i
         \<and> posts st' = (posts st)[i := updated]
         \<and> (\<forall>k. k \<noteq> ''updatedAt'' \<longrightarrow>
               updated k = (case updates k of Some v \<Rightarrow> Some v | None \<Rightarrow> (posts st ! i) k))"
    by auto
next
  assume h: "put_post clk' ident' body st2 = (PostUpdated updated2, st2')"
  then have up: "updatePost clk' (JStr ident') (put_updates body) st2 = Inr (updated2, st2')"
    by (auto simp: put_post_def split: sum.splits prod.splits)
  from updatePost_Inr[OF up] obtain i where
    i: "findIndex (\<lambda>p. get_prop p ''id'' = JStr ident') (posts st2) = Some i"
    and u: "updated2 = ((posts st2 ! i) ++ put_updates body)(''updatedAt'' \<mapsto> JDate (clk' 0))"
    and s: "st2' = st2\<lparr>posts := (posts st2)[i := updated2]\<rparr>"
    by blast
  from findIndex_Some[OF i] have "i < length (posts st2)" by simp
  then have "updated2 \<in> set (posts st2')"
    unfolding s by (simp add: set_update_memI)
  moreover have "\<forall>k\<in>set put_fields. body k = None \<longrightarrow>
              updated2 k = Some JUndefined \<and> get_prop updated2 k = JUndefined"
    unfolding u by (simp add: put_fields_def put_updates_def get_prop_def map_add_def)
  ultimately show "updated2 \<in> set (posts st2')
        \<and> (\<forall>k\<in>set put_fields. body k = None \<longrightarrow>
              updated2 k = Some JUndefined \<and> get_prop updated2 k = JUndefined)"
    by simp
qed

theorem updatePost_merge_by_presence_witness:
  "updatePost (\<lambda>i. 5) (JStr ''2'') [''title'' \<mapsto> JUndefined] seed_state
     = Inr ((sample_post_2 ++ [''title'' \<mapsto> JUndefined])(''updatedAt'' \<mapsto> JDate 5),
            seed_state\<lparr>posts := [sample_post_1,
               (sample_post_2 ++ [''title'' \<mapsto> JUndefined])(''updatedAt'' \<mapsto> JDate 5),
               sample_post_3]\<rparr>)
   \<and> ((sample_post_2 ++ [''title'' \<mapsto> JUndefined])(''updatedAt'' \<mapsto> JDate 5)) ''title''
        = Some JUndefined
   \<and> ((sample_post_2 ++ [''title'' \<mapsto> JUndefined])(''updatedAt'' \<mapsto> JDate 5)) ''slug''
        = Some (JStr ''team-building-case-study'')
   \<and> put_post (\<lambda>i. 5) ''2'' [''title'' \<mapsto> JStr ''New''] seed_state
     = (PostUpdated ((sample_post_2 ++ put_updates [''title'' \<mapsto> JStr ''New''])(''updatedAt'' \<mapsto> JDate 5)),
        seed_state\<lparr>posts := [sample_post_1,
               (sample_post_2 ++ put_updates [''title'' \<mapsto> JStr ''New''])(''updatedAt'' \<mapsto> JDate 5),
               sample_post_3]\<rparr>)
   \<and> get_prop ((sample_post_2 ++ put_updates [''title'' \<mapsto> JStr ''New''])(''updatedAt'' \<mapsto> JDate 5))
        ''content'' = JUndefined
   \<and> get_prop sample_post_2 ''content'' \<noteq> JUndefined"
proof -
  have ids: "get_prop sample_post_1 ''id'' = JStr ''1''" "get_prop sample_post_2 ''id'' = JStr ''2''"
    by (simp_all add: sample_post_1_def sample_post_2_def get_prop_def)
  have h1: "updatePost (\<lambda>i. 5) (JStr ''2'') [''title'' \<mapsto> JUndefined] seed_state
     = Inr ((sample_post_2 ++ [''title'' \<mapsto> JUndefined])(''updatedAt'' \<mapsto> JDate 5),
            seed_state\<lparr>posts := [sample_post_1,
               (sample_post_2 ++ [''title'' \<mapsto> JUndefined])(''updatedAt'' \<mapsto> JDate 5),
               sample_post_3]\<rparr>)"
    by (simp add: updatePost_def seed_state_def loadSampleData_def constructed_def ids)
  have h2: "put_post (\<lambda>i. 5) ''2'' [''title'' \<mapsto> JStr ''New''] seed_state
     = (PostUpdated ((sample_post_2 ++ put_updates [''title'' \<mapsto> JStr ''New''])(''updatedAt'' \<mapsto> JDate 5)),
        seed_state\<lparr>posts := [sample_post_1,
               (sample_post_2 ++ put_updates [''title'' \<mapsto> JStr ''New''])(''updatedAt'' \<mapsto> JDate 5),
               sample_post_3]\<rparr>)"
    by (simp add: put_post_def updatePost_def seed_state_def loadSampleData_def constructed_def ids)
  have c: "get_prop sample_post_2 ''content'' \<noteq> JUndefined"
    by (simp add: sample_post_2_def get_prop_def)
  have k: "''content'' \<in> set put_fields" "[''title'' \<mapsto> JStr ''New''] ''content'' = None"
    by (simp_all add: put_fields_def)
  let ?U = "(sample_post_2 ++ [''title'' \<mapsto> JUndefined])(''updatedAt'' \<mapsto> JDate 5)"
  let ?V = "(sample_post_2 ++ put_updates [''title'' \<mapsto> JStr ''New''])(''updatedAt'' \<mapsto> JDate 5)"
  note T = updatePost_merge_by_presence[where clk = "\<lambda>i. 5" and ident = "JStr ''2''"
      and updates = "[''title'' \<mapsto> JUndefined]" and st = seed_state and updated = ?U
      and st' = "seed_state\<lparr>posts := [sample_post_1, ?U, sample_post_3]\<rparr>"
      and clk' = "\<lambda>i. 5" and ident' = "''2''" and body = "[''title'' \<mapsto> JStr ''New'']"
      and ?st2.0 = seed_state and ?updated2.0 = ?V
      and st2' = "seed_state\<lparr>posts := [sample_post_1, ?V, sample_post_3]\<rparr>"]
  from T h1 obtain i where
    "\<forall>k. k \<noteq> ''updatedAt'' \<longrightarrow>
       ?U k = (case [''title'' \<mapsto> JUndefined] k of Some v \<Rightarrow> Some v
               | None \<Rightarrow> (posts seed_state ! i) k)"
    by blast
  then have "?U ''title'' = (case [''title'' \<mapsto> JUndefined] ''title'' of Some v \<Rightarrow> Some v
               | None \<Rightarrow> (posts seed_state ! i) ''title'')"
    by (rule allE) simp
  then have a: "?U ''title'' = Some JUndefined"
    by simp
  have b: "?U ''slug'' = Some (JStr ''team-building-case-study'')"
    by (simp add: sample_post_2_def)
  from T h2 have "\<forall>k\<in>set put_fields. [''title'' \<mapsto> JStr ''New''] k = None \<longrightarrow>
      ?V k = Some JUndefined \<and> get_prop ?V k = JUndefined"
    by blast
  with k have d: "get_prop ?V ''content'' = JUndefined"
    by blast
  show ?thesis
    using h1 a b h2 d c by blast
qed

section \<open>updatePost: unknown and stored ids\<close>

lemma set_list_columns: "c \<in> fst ` set (set_list rt entries) \<Longrightarrow> c \<in> set allowedFields"
  by (auto simp: set_list_def)

lemma cast_all_columns: "cast_all eng sets = Inr vals \<Longrightarrow> map fst vals = map fst sets"
  by (induction sets arbitrary: vals) (auto split: sum.splits)

lemma cast_all_append:
  "cast_all eng (xs @ [(c, v)]) = Inr vals \<Longrightarrow>
     \<exists>ws w. cast_all eng xs = Inr ws \<and> to_column eng c v = Inr w \<and> vals = ws @ [(c, w)]"
  by (induction xs arbitrary: vals) (auto split: sum.splits)

lemma find_map_same:
  assumes "\<And>x. P (f x) = P x"
  shows "find P (map f xs) = map_option f (find P xs)"
  using assms by (induction xs) auto

lemma id_is_add:
  assumes "m ''id'' = None"
  shows "id_is ident (r ++ m) = id_is ident r"
  using assms by (simp add: id_is_def get_prop_def map_add_def split: jsval.splits)

lemma id_not_assigned:
  assumes "cast_all eng (set_list rt entries @ [(''updated_at'', JDate t)]) = Inr vals"
  shows "map_of vals ''id'' = None"
proof -
  have "map fst vals = map fst (set_list rt entries) @ [''updated_at'']"
    using cast_all_columns[OF assms] by simp
  moreover have "''id'' \<notin> fst ` set (set_list rt entries)"
    using set_list_columns[of "''id''" rt entries] by (auto simp: allowedFields_def)
  ultimately have "''id'' \<notin> set (map fst vals)"
    by auto
  then show ?thesis
    by (simp add: map_of_eq_None_iff)
qed

lemma pg_updatePost_nothing_allowed:
  "set_list rt entries = [] \<Longrightarrow>
     pg_updatePost rt eng clk ident entries db = Inr (pg_getPostById ident db, db)"
  by (simp add: pg_updatePost_def)

lemma pg_updatePost_stored:
  assumes nonempty: "set_list rt entries \<noteq> []"
    and dist: "distinct (map fst (set_list rt entries))"
    and cast: "cast_all eng (set_list rt entries @ [(''updated_at'', JDate (clk 0))]) = Inr vals"
    and ok: "posts_constraints
               (map (\<lambda>x. if id_is ident x then x ++ map_of vals else x) (posts_table db))"
    and row: "find (id_is ident) (posts_table db) = Some r"
  shows "pg_updatePost rt eng clk ident entries db =
           Inr (Some (mapPostFromDb (r ++ map_of vals)),
                db\<lparr>posts_table :=
                   map (\<lambda>x. if id_is ident x then x ++ map_of vals else x) (posts_table db)\<rparr>)"
proof -
  let ?f = "\<lambda>x. if id_is ident x then x ++ map_of vals else x"
  have "''updated_at'' \<notin> fst ` set (set_list rt entries)"
    using set_list_columns[of "''updated_at''" rt entries] by (auto simp: allowedFields_def)
  with dist have d: "distinct (map fst (set_list rt entries @ [(''updated_at'', JDate (clk 0))]))"
    by simp
  have same: "\<And>x. id_is ident (?f x) = id_is ident x"
    using id_is_add[where m = "map_of vals"] id_not_assigned[OF cast] by simp
  have "find (id_is ident) (map ?f (posts_table db)) = map_option ?f (find (id_is ident) (posts_table db))"
    by (rule find_map_same) (rule same)
  also have "\<dots> = Some (r ++ map_of vals)"
    using row find_Some_iff[of "id_is ident" "posts_table db" r] by auto
  finally have f: "find (id_is ident) (map ?f (posts_table db)) = Some (r ++ map_of vals)" .
  have u: "update_posts eng (set_list rt entries @ [(''updated_at'', JDate (clk 0))]) ident db
        = Inr (db\<lparr>posts_table := map ?f (posts_table db)\<rparr>)"
    unfolding update_posts_def using d cast ok by simp
  show ?thesis
    unfolding pg_updatePost_def using nonempty u f by (simp add: pg_getPostById_def)
qed

lemma pg_updatedAt_refreshed:
  assumes cast: "cast_all eng (set_list rt entries @ [(''updated_at'', JDate (clk 0))]) = Inr vals"
  shows "\<exists>w. to_column eng ''updated_at'' (JDate (clk 0)) = Inr w
            \<and> get_prop (mapPostFromDb (r ++ map_of vals)) ''updatedAt'' = w"
proof -
  from cast_all_append[OF cast] obtain ws w where
    ws: "cast_all eng (set_list rt entries) = Inr ws"
    and w: "to_column eng ''updated_at'' (JDate (clk 0)) = Inr w"
    and v: "vals = ws @ [(''updated_at'', w)]"
    by blast
  have "map fst ws = map fst (set_list rt entries)"
    using cast_all_columns[OF ws] .
  moreover have "''updated_at'' \<notin> fst ` set (set_list rt entries)"
    using set_list_columns[of "''updated_at''" rt entries] by (auto simp: allowedFields_def)
  ultimately have "''updated_at'' \<notin> set (map fst ws)"
    by auto
  then have "map_of ws ''updated_at'' = None"
    by (simp add: map_of_eq_None_iff)
  then have "map_of vals ''updated_at'' = Some w"
    unfolding v by (simp add: map_add_def)
  then have "get_prop (mapPostFromDb (r ++ map_of vals)) ''updatedAt'' = w"
    by (simp add: mapPostFromDb_def get_prop_def map_add_def)
  with w show ?thesis by blast
qed

lemma cast_all_value:
  "cast_all eng sets = Inr vals \<Longrightarrow> distinct (map fst sets) \<Longrightarrow> (c, v) \<in> set sets \<Longrightarrow>
     \<exists>w. to_column eng c v = Inr w \<and> map_of vals c = Some w"
proof (induction sets arbitrary: vals)
  case Nil
  then show ?case by simp
next
  case (Cons a sets)
  obtain c' v' where a: "a = (c', v')" by (cases a)
  from Cons.prems(1) a obtain w' ws where
    w': "to_column eng c' v' = Inr w'" and ws: "cast_all eng sets = Inr ws"
    and vals: "vals = (c', w') # ws"
    by (auto split: sum.splits)
  show ?case
  proof (cases "(c, v) = (c', v')")
    case True
    with w' vals show ?thesis by simp
  next
    case False
    with Cons.prems(3) a have mem: "(c, v) \<in> set sets" by auto
    from Cons.prems(2) a have d: "distinct (map fst sets)" and "c' \<notin> fst ` set sets" by auto
    with mem have "c \<noteq> c'" by force
    with Cons.IH[OF ws d mem] vals show ?thesis by simp
  qed
qed

text \<open>
  Claim C3, as amended. In the in-memory backend \<open>updatePost\<close> fails with the
  "Post not found" error for an id that no stored post has (nothing is written: the error
  is raised before any assignment), and for a stored id it returns the first post with
  that id with the given fields merged over it and \<open>updatedAt\<close> set to the clock's
  reading, and stores that record in its place. In the PostgreSQL backend, with a stored
  id: when none of the given keys names an allowed column the stored record is returned
  and nothing is written (\<open>updated_at\<close> keeps its value); otherwise, when the engine
  accepts the statement, the allowed columns among the given fields are written with
  their converted values, every other column but \<open>updated_at\<close> keeps its value, and
  \<open>updated_at\<close> is set to the clock's reading.
\<close>

theorem updatePost_contract:
  "((\<forall>p\<in>set (posts st). get_prop p ''id'' \<noteq> ident) \<longrightarrow>
       updatePost clk ident updates st = Inl NotFound)
   \<and> ((\<exists>p\<in>set (posts st). get_prop p ''id'' = ident) \<longrightarrow>
       (\<exists>i. findIndex (\<lambda>p. get_prop p ''id'' = ident) (posts st) = Some i
          \<and> getPostById ident st = Some (posts st ! i)
          \<and> updatePost clk ident updates st =
              Inr (((posts st ! i) ++ updates)(''updatedAt'' \<mapsto> JDate (clk 0)),
                   st\<lparr>posts := (posts st)[i :=
                      ((posts st ! i) ++ updates)(''updatedAt'' \<mapsto> JDate (clk 0))]\<rparr>)))
   \<and> (set_list rt entries = [] \<longrightarrow>
       pg_updatePost rt eng pclk pid entries db = Inr (pg_getPostById pid db, db))
   \<and> (set_list rt entries \<noteq> []
       \<and> distinct (map fst (set_list rt entries))
       \<and> cast_all eng (set_list rt entries @ [(''updated_at'', JDate (pclk 0))]) = Inr vals
       \<and> posts_constraints (map (\<lambda>x. if id_is pid x then x ++ map_of vals else x) (posts_table db))
       \<and> find (id_is pid) (posts_table db) = Some r \<longrightarrow>
       pg_updatePost rt eng pclk pid entries db =
         Inr (Some (mapPostFromDb (r ++ map_of vals)),
              db\<lparr>posts_table := map (\<lambda>x. if id_is pid x then x ++ map_of vals else x) (posts_table db)\<rparr>)
       \<and> (\<forall>c v. (c, v) \<in> set (set_list rt entries) \<longrightarrow>
             (\<exists>w. to_column eng c v = Inr w \<and> (r ++ map_of vals) c = Some w))
       \<and> (\<forall>c. c \<notin> set allowedFields \<and> c \<noteq> ''updated_at'' \<longrightarrow> (r ++ map_of vals) c = r c)
       \<and> (\<exists>w. to_column eng ''updated_at'' (JDate (pclk 0)) = Inr w
             \<and> get_prop (mapPostFromDb (r ++ map_of vals)) ''updatedAt'' = w))"
proof (intro conjI)
  show "(\<forall>p\<in>set (posts st). get_prop p ''id'' \<noteq> ident) \<longrightarrow>
       updatePost clk ident updates st = Inl NotFound"
    using updatePost_unknown by blast
next
  show "(\<exists>p\<in>set (posts st). get_prop p ''id'' = ident) \<longrightarrow>
       (\<exists>i. findIndex (\<lambda>p. get_prop p ''id'' = ident) (posts st) = Some i
          \<and> getPostById ident st = Some (posts st ! i)
          \<and> updatePost clk ident updates st =
              Inr (((posts st ! i) ++ updates)(''updatedAt'' \<mapsto> JDate (clk 0)),
                   st\<lparr>posts := (posts st)[i :=
                      ((posts st ! i) ++ updates)(''updatedAt'' \<mapsto> JDate (clk 0))]\<rparr>))"
  proof
    assume "\<exists>p\<in>set (posts st). get_prop p ''id'' = ident"
    from findIndex_exists[OF this] obtain i where
      i: "findIndex (\<lambda>p. get_prop p ''id'' = ident) (posts st) = Some i" ..
    from findIndex_Some[OF i] have "getPostById ident st = Some (posts st ! i)"
      by (simp add: getPostById_def)
    with i updatePost_known[OF i] show "\<exists>i. findIndex (\<lambda>p. get_prop p ''id'' = ident) (posts st) = Some i
          \<and> getPostById ident st = Some (posts st ! i)
          \<and> updatePost clk ident updates st =
              Inr (((posts st ! i) ++ updates)(''updatedAt'' \<mapsto> JDate (clk 0)),
                   st\<lparr>posts := (posts st)[i :=
                      ((posts st ! i) ++ updates)(''updatedAt'' \<mapsto> JDate (clk 0))]\<rparr>)"
      by blast
  qed
next
  show "set_list rt entries = [] \<longrightarrow>
       pg_updatePost rt eng pclk pid entries db = Inr (pg_getPostById pid db, db)"
    using pg_updatePost_nothing_allowed by blast
next
  show "set_list rt entries \<noteq> []
       \<and> distinct (map fst (set_list rt entries))
       \<and> cast_all eng (set_list rt entries @ [(''updated_at'', JDate (pclk 0))]) = Inr vals
       \<and> posts_constraints (map (\<lambda>x. if id_is pid x then x ++ map_of vals else x) (posts_table db))
       \<and> find (id_is pid) (posts_table db) = Some r \<longrightarrow>
       pg_updatePost rt eng pclk pid entries db =
         Inr (Some (mapPostFromDb (r ++ map_of vals)),
              db\<lparr>posts_table := map (\<lambda>x. if id_is pid x then x ++ map_of vals else x) (posts_table db)\<rparr>)
       \<and> (\<forall>c v. (c, v) \<in> set (set_list rt entries) \<longrightarrow>
             (\<exists>w. to_column eng c v = Inr w \<and> (r ++ map_of vals) c = Some w))
       \<and> (\<forall>c. c \<notin> set allowedFields \<and> c \<noteq> ''updated_at'' \<longrightarrow> (r ++ map_of vals) c = r c)
       \<and> (\<exists>w. to_column eng ''updated_at'' (JDate (pclk 0)) = Inr w
             \<and> get_prop (mapPostFromDb (r ++ map_of vals)) ''updatedAt'' = w)"
  proof
    assume h: "set_list rt entries \<noteq> []
       \<and> distinct (map fst (set_list rt entries))
       \<and> cast_all eng (set_list rt entries @ [(''updated_at'', JDate (pclk 0))]) = Inr vals
       \<and> posts_constraints (map (\<lambda>x. if id_is pid x then x ++ map_of vals else x) (posts_table db))
       \<and> find (id_is pid) (posts_table db) = Some r"
    then have ne: "set_list rt entries \<noteq> []"
      and dist: "distinct (map fst (set_list rt entries))"
      and cast: "cast_all eng (set_list rt entries @ [(''updated_at'', JDate (pclk 0))]) = Inr vals"
      and ok: "posts_constraints (map (\<lambda>x. if id_is pid x then x ++ map_of vals else x) (posts_table db))"
      and row: "find (id_is pid) (posts_table db) = Some r"
      by blast+
    have notin: "''updated_at'' \<notin> fst ` set (set_list rt entries)"
      using set_list_columns[of "''updated_at''" rt entries] by (auto simp: allowedFields_def)
    with dist have d: "distinct (map fst (set_list rt entries @ [(''updated_at'', JDate (pclk 0))]))"
      by simp
    have cols: "map fst vals = map fst (set_list rt entries) @ [''updated_at'']"
      using cast_all_columns[OF cast] by simp
    have A: "\<forall>c v. (c, v) \<in> set (set_list rt entries) \<longrightarrow>
             (\<exists>w. to_column eng c v = Inr w \<and> (r ++ map_of vals) c = Some w)"
    proof (intro allI impI)
      fix c v assume "(c, v) \<in> set (set_list rt entries)"
      then have "(c, v) \<in> set (set_list rt entries @ [(''updated_at'', JDate (pclk 0))])" by simp
      from cast_all_value[OF cast d this] obtain w where
        "to_column eng c v = Inr w" "map_of vals c = Some w" by blast
      then show "\<exists>w. to_column eng c v = Inr w \<and> (r ++ map_of vals) c = Some w"
        by (simp add: map_add_def)
    qed
    have B: "\<forall>c. c \<notin> set allowedFields \<and> c \<noteq> ''updated_at'' \<longrightarrow> (r ++ map_of vals) c = r c"
    proof (intro allI impI)
      fix c assume c: "c \<notin> set allowedFields \<and> c \<noteq> ''updated_at''"
      then have "c \<notin> fst ` set (set_list rt entries)"
        using set_list_columns[of c rt entries] by blast
      with c cols have "c \<notin> set (map fst vals)" by auto
      then have "map_of vals c = None" by (simp add: map_of_eq_None_iff)
      then show "(r ++ map_of vals) c = r c" by (simp add: map_add_def)
    qed
    from pg_updatePost_stored[where rt = rt and entries = entries and eng = eng and clk = pclk
        and vals = vals and ident = pid and db = db and r = r, OF ne dist cast ok row]
      A B pg_updatedAt_refreshed[where rt = rt and entries = entries and eng = eng and clk = pclk
        and vals = vals and r = r, OF cast]
    show "pg_updatePost rt eng pclk pid entries db =
         Inr (Some (mapPostFromDb (r ++ map_of vals)),
              db\<lparr>posts_table := map (\<lambda>x. if id_is pid x then x ++ map_of vals else x) (posts_table db)\<rparr>)
       \<and> (\<forall>c v. (c, v) \<in> set (set_list rt entries) \<longrightarrow>
             (\<exists>w. to_column eng c v = Inr w \<and> (r ++ map_of vals) c = Some w))
       \<and> (\<forall>c. c \<notin> set allowedFields \<and> c \<noteq> ''updated_at'' \<longrightarrow> (r ++ map_of vals) c = r c)
       \<and> (\<exists>w. to_column eng ''updated_at'' (JDate (pclk 0)) = Inr w
             \<and> get_prop (mapPostFromDb (r ++ map_of vals)) ''updatedAt'' = w)"
      by blast
  qed
qed

lemma sample_row_id: "get_prop sample_row ''id'' = JStr ''1''"
  by (simp add: sample_row_def get_prop_def)

lemma sample_row_ok: "posts_constraints [sample_row]"
  by (simp add: posts_constraints_def sample_row_def get_prop_def)

lemma set_list_schedule:
  "set_list rt [(''scheduledPublishDate'', v)] = []"
  by (simp add: set_list_def snake_case_def is_upper_def lower_char_def allowedFields_def char_of_def)

lemma set_list_title:
  "set_list rt [(''title'', v)] = [(''title'', v)]"
  by (simp add: set_list_def snake_case_def is_upper_def lower_char_def allowedFields_def char_of_def)

text \<open>
  The claim as stated fails on the PostgreSQL backend for a stored id: a given field
  that is not an allowed column (here \<open>scheduledPublishDate\<close>) is not merged into the
  record, and, no allowed column being given, \<open>updatedAt\<close> keeps its stored value.
\<close>

theorem updatePost_contract_counterexample:
  "find (id_is (JStr ''1'')) (posts_table sample_pgdb) = Some sample_row
   \<and> pg_updatePost sample_runtime sample_engine (\<lambda>i. 9) (JStr ''1'')
        [(''scheduledPublishDate'', JStr ''2025-01-01T00:00:00.000Z'')] sample_pgdb
      = Inr (Some (mapPostFromDb sample_row), sample_pgdb)
   \<and> get_prop (mapPostFromDb sample_row) ''scheduledPublishDate'' = JUndefined
   \<and> get_prop (mapPostFromDb sample_row) ''updatedAt'' = JDate 1762905600000"
proof -
  have c: "find (id_is (JStr ''1'')) (posts_table sample_pgdb) = Some sample_row"
    by (simp add: sample_pgdb_def id_is_def sample_row_id)
  have d: "pg_updatePost sample_runtime sample_engine (\<lambda>i. 9) (JStr ''1'')
        [(''scheduledPublishDate'', JStr ''2025-01-01T00:00:00.000Z'')] sample_pgdb
      = Inr (Some (mapPostFromDb sample_row), sample_pgdb)"
    using c by (simp add: pg_updatePost_def set_list_schedule pg_getPostById_def)
  have e: "get_prop (mapPostFromDb sample_row) ''scheduledPublishDate'' = JUndefined"
    by (simp add: mapPostFromDb_def get_prop_def)
  have f: "get_prop (mapPostFromDb sample_row) ''updatedAt'' = JDate 1762905600000"
    by (simp add: mapPostFromDb_def get_prop_def sample_row_def)
  show ?thesis
    using c d e f by blast
qed

text \<open>
  For an id that no row has, the PostgreSQL \<open>updatePost\<close> raises nothing: the \<open>UPDATE\<close>
  selects no row and the method returns \<open>null\<close>.
\<close>

lemma pg_updatePost_unknown_id:
  "find (id_is (JStr ''404'')) (posts_table sample_pgdb) = None
   \<and> pg_updatePost sample_runtime sample_engine (\<lambda>i. 9) (JStr ''404'') [(''title'', JStr ''New'')]
        sample_pgdb = Inr (None, sample_pgdb)"
proof -
  have a: "find (id_is (JStr ''404'')) (posts_table sample_pgdb) = None"
    by (simp add: sample_pgdb_def id_is_def sample_row_id)
  have b: "pg_updatePost sample_runtime sample_engine (\<lambda>i. 9) (JStr ''404'') [(''title'', JStr ''New'')]
        sample_pgdb = Inr (None, sample_pgdb)"
    by (simp add: pg_updatePost_def set_list_title update_posts_def sample_engine_def
        sample_pgdb_def id_is_def sample_row_id sample_row_ok pg_getPostById_def)
  show ?thesis
    using a b by blast
qed

text \<open>The amended statement at concrete inputs, one for each of its four cases.\<close>

theorem updatePost_contract_witness:
  "updatePost (\<lambda>i. 9) (JStr ''404'') Map.empty seed_state = Inl NotFound
   \<and> (\<exists>i. findIndex (\<lambda>p. get_prop p ''id'' = JStr ''2'') (posts seed_state) = Some i
          \<and> getPostById (JStr ''2'') seed_state = Some (posts seed_state ! i)
          \<and> updatePost (\<lambda>i. 9) (JStr ''2'') [''title'' \<mapsto> JStr ''New''] seed_state =
              Inr (((posts seed_state ! i) ++ [''title'' \<mapsto> JStr ''New''])(''updatedAt'' \<mapsto> JDate 9),
                   seed_state\<lparr>posts := (posts seed_state)[i :=
                      ((posts seed_state ! i) ++ [''title'' \<mapsto> JStr ''New''])(''updatedAt'' \<mapsto> JDate 9)]\<rparr>))
   \<and> pg_updatePost sample_runtime sample_engine (\<lambda>i. 9) (JStr ''1'')
        [(''scheduledPublishDate'', JStr ''2025-01-01T00:00:00.000Z'')] sample_pgdb
      = Inr (pg_getPostById (JStr ''1'') sample_pgdb, sample_pgdb)
   \<and> pg_updatePost sample_runtime sample_engine (\<lambda>i. 9) (JStr ''1'') [(''title'', JStr ''New'')] sample_pgdb
      = Inr (Some (mapPostFromDb
                (sample_row ++ map_of [(''title'', JStr ''New''), (''updated_at'', JDate 9)])),
             sample_pgdb\<lparr>posts_table :=
                map (\<lambda>x. if id_is (JStr ''1'') x
                          then x ++ map_of [(''title'', JStr ''New''), (''updated_at'', JDate 9)]
                          else x) (posts_table sample_pgdb)\<rparr>)
   \<and> get_prop (mapPostFromDb
        (sample_row ++ map_of [(''title'', JStr ''New''), (''updated_at'', JDate 9)])) ''updatedAt''
      = JDate 9"
proof -
  have ids: "get_prop sample_post_1 ''id'' = JStr ''1''" "get_prop sample_post_2 ''id'' = JStr ''2''"
    "get_prop sample_post_3 ''id'' = JStr ''3''"
    by (simp_all add: sample_post_1_def sample_post_2_def sample_post_3_def get_prop_def)
  have h1: "\<forall>p\<in>set (posts seed_state). get_prop p ''id'' \<noteq> JStr ''404''"
    by (simp add: seed_state_def loadSampleData_def constructed_def ids)
  have h2: "\<exists>p\<in>set (posts seed_state). get_prop p ''id'' = JStr ''2''"
    by (simp add: seed_state_def loadSampleData_def constructed_def ids)
  have h3: "set_list sample_runtime [(''scheduledPublishDate'', JStr ''2025-01-01T00:00:00.000Z'')] = []"
    by (rule set_list_schedule)
  let ?vals = "[(''title'', JStr ''New''), (''updated_at'', JDate 9)]"
  have h4: "set_list sample_runtime [(''title'', JStr ''New'')] \<noteq> []
       \<and> distinct (map fst (set_list sample_runtime [(''title'', JStr ''New'')]))
       \<and> cast_all sample_engine (set_list sample_runtime [(''title'', JStr ''New'')]
            @ [(''updated_at'', JDate ((\<lambda>i. 9) (0::nat)))]) = Inr ?vals
       \<and> posts_constraints (map (\<lambda>x. if id_is (JStr ''1'') x then x ++ map_of ?vals else x)
            (posts_table sample_pgdb))
       \<and> find (id_is (JStr ''1'')) (posts_table sample_pgdb) = Some sample_row"
    by (simp add: set_list_title sample_engine_def sample_pgdb_def id_is_def sample_row_id
        posts_constraints_def get_prop_def sample_row_def)
  note T1 = updatePost_contract[where st = seed_state and ident = "JStr ''404''" and clk = "\<lambda>i. 9"
      and updates = Map.empty and rt = sample_runtime and eng = sample_engine and pclk = "\<lambda>i. 9"
      and pid = "JStr ''1''" and db = sample_pgdb
      and entries = "[(''scheduledPublishDate'', JStr ''2025-01-01T00:00:00.000Z'')]"]
  note T2 = updatePost_contract[where st = seed_state and ident = "JStr ''2''" and clk = "\<lambda>i. 9"
      and updates = "[''title'' \<mapsto> JStr ''New'']" and rt = sample_runtime and eng = sample_engine
      and pclk = "\<lambda>i. 9" and pid = "JStr ''1''" and db = sample_pgdb
      and entries = "[(''title'', JStr ''New'')]" and vals = ?vals and r = sample_row]
  from T1 h1 have a: "updatePost (\<lambda>i. 9) (JStr ''404'') Map.empty seed_state = Inl NotFound"
    by blast
  from T1 h3 have c: "pg_updatePost sample_runtime sample_engine (\<lambda>i. 9) (JStr ''1'')
        [(''scheduledPublishDate'', JStr ''2025-01-01T00:00:00.000Z'')] sample_pgdb
      = Inr (pg_getPostById (JStr ''1'') sample_pgdb, sample_pgdb)"
    by blast
  from T2 h2 have b: "\<exists>i. findIndex (\<lambda>p. get_prop p ''id'' = JStr ''2'') (posts seed_state) = Some i
          \<and> getPostById (JStr ''2'') seed_state = Some (posts seed_state ! i)
          \<and> updatePost (\<lambda>i. 9) (JStr ''2'') [''title'' \<mapsto> JStr ''New''] seed_state =
              Inr (((posts seed_state ! i) ++ [''title'' \<mapsto> JStr ''New''])(''updatedAt'' \<mapsto> JDate 9),
                   seed_state\<lparr>posts := (posts seed_state)[i :=
                      ((posts seed_state ! i) ++ [''title'' \<mapsto> JStr ''New''])(''updatedAt'' \<mapsto> JDate 9)]\<rparr>)"
    by blast
  from T2 h4 have d: "pg_updatePost sample_runtime sample_engine (\<lambda>i. 9) (JStr ''1'') [(''title'', JStr ''New'')] sample_pgdb
      = Inr (Some (mapPostFromDb (sample_row ++ map_of ?vals)),
             sample_pgdb\<lparr>posts_table :=
                map (\<lambda>x. if id_is (JStr ''1'') x then x ++ map_of ?vals else x)
                  (posts_table sample_pgdb)\<rparr>)"
    by blast
  have e: "get_prop (mapPostFromDb (sample_row ++ map_of ?vals)) ''updatedAt'' = JDate 9"
    by (simp add: mapPostFromDb_def get_prop_def)
  show ?thesis
    using a b c d e by blast
qed

section \<open>The scheduler on the in-memory backend\<close>





lemma posts_or_empty_memory [simp]: "posts_or_empty memory_backend st = posts st"
  by (simp add: posts_or_empty_def memory_backend_def)










section \<open>A failing update ends the scan\<close>

lemma later_later: "later a (later b clk) = later (a + b) clk"
  by (simp add: later_def fun_eq_iff add.assoc)








section \<open>The scheduler on the PostgreSQL backend\<close>

text \<open>
  Claim C8. The PostgreSQL object has no \<open>posts\<close> property, so the array the tick
  enumerates is empty: whatever the tables hold, the tick calls no update, logs nothing
  and leaves the database as it is. (On the in-memory backend a tick does promote due
  posts, as shown above.)
\<close>

theorem postgres_tick_promotes_nothing:
  "posts_or_empty (postgres_backend rt eng) db = []
   \<and> scheduler_tick rt' (postgres_backend rt eng) clk db = Some (db, [])"
proof -
  have e: "posts_or_empty (postgres_backend rt eng) db = []"
    by (simp add: posts_or_empty_def postgres_backend_def)
  then have "tick_loop rt' (postgres_backend rt eng) (clk 0) (later 1 clk) 0 db [] = Some (db, [])"
    by (subst tick_loop.simps) simp
  with e show ?thesis by (simp add: scheduler_tick_def)
qed


section \<open>Search\<close>


lemma some_tag_strings:
  "some_tag (map JStr ts) q = Inr (\<exists>tag\<in>set ts. str_includes tag q)"
  by (induction ts) (auto simp: tag_includes_def split: bool.splits)



lemma post_matches_strings:
  assumes "get_prop p ''title'' = JStr t" and "get_prop p ''content'' = JStr c"
    and "get_prop p ''tags'' = JArr (map JStr ts)"
  shows "post_matches q p =
     Inr (str_includes (toLowerCase t) q \<or> str_includes (toLowerCase c) q
          \<or> (\<exists>tag\<in>set ts. str_includes tag q))"
  using assms by (auto simp: post_matches_def lowered_includes_def some_tag_strings split: bool.splits)


lemma filter_posts_Inr:
  "filter_posts f ps = Inr res \<Longrightarrow> res = filter (\<lambda>p. f p = Inr True) ps"
  by (induction ps arbitrary: res) (auto split: sum.splits)





lemma searchPosts_Inr:
  "searchPosts query st = Inr res \<Longrightarrow>
     res = filter (\<lambda>p. post_matches (toLowerCase query) p = Inr True) (posts st)"
  unfolding searchPosts_def by (rule filter_posts_Inr)




text \<open>
  \<open>str_includes\<close> is the substring relation, and lowering both strings keeps it. So
  every post the in-memory search returns does contain the query, ignoring letter case,
  in its title, its content or one of its tags; the converse is what fails for tags.
\<close>

lemma starts_with_prefix: "starts_with s q \<longleftrightarrow> prefix q s"
  by (induction s q rule: starts_with.induct) auto

lemma str_includes_sublist: "str_includes s q \<longleftrightarrow> sublist q s"
  by (induction s) (auto simp: starts_with_prefix sublist_Cons_right)

lemma lower_char_idem: "lower_char (lower_char c) = lower_char c"
  by (simp add: lower_char_def)

lemma toLowerCase_idem: "toLowerCase (toLowerCase s) = toLowerCase s"
  by (simp add: toLowerCase_def lower_char_idem)

lemma str_includes_lowered:
  assumes "str_includes s q"
  shows "str_includes (toLowerCase s) (toLowerCase q)"
proof -
  from assms obtain ps ss where "s = ps @ q @ ss"
    by (auto simp: str_includes_sublist sublist_def)
  then have "toLowerCase s = toLowerCase ps @ toLowerCase q @ toLowerCase ss"
    by (simp add: toLowerCase_def)
  then show ?thesis
    unfolding str_includes_sublist sublist_def by blast
qed

lemma searchPosts_sound:
  assumes "searchPosts query st = Inr res" and "p \<in> set res"
    and "get_prop p ''title'' = JStr t" and "get_prop p ''content'' = JStr c"
    and "get_prop p ''tags'' = JArr (map JStr ts)"
  shows "p \<in> set (posts st)
     \<and> (str_includes (toLowerCase t) (toLowerCase query)
        \<or> str_includes (toLowerCase c) (toLowerCase query)
        \<or> (\<exists>tag\<in>set ts. str_includes (toLowerCase tag) (toLowerCase query)))"
proof -
  from searchPosts_Inr[OF assms(1)] assms(2) have m: "p \<in> set (posts st)"
    and "post_matches (toLowerCase query) p = Inr True"
    by auto
  with post_matches_strings[OF assms(3,4,5), of "toLowerCase query"] have
    "str_includes (toLowerCase t) (toLowerCase query)
        \<or> str_includes (toLowerCase c) (toLowerCase query)
        \<or> (\<exists>tag\<in>set ts. str_includes tag (toLowerCase query))"
    by simp
  moreover have "str_includes (toLowerCase tag) (toLowerCase query)"
    if "str_includes tag (toLowerCase query)" for tag
    using str_includes_lowered[OF that] by (simp add: toLowerCase_idem)
  ultimately show ?thesis using m by blast
qed

text \<open>
  Claim C4, at an input where the code departs from it. The query is lowered, the title
  and the content are lowered, the tags are not: a post whose tag is \<open>Quiz\<close> is found
  neither by the query \<open>quiz\<close> nor by the query \<open>Quiz\<close>, although the tag contains the
  query when both are lowered; it is found by \<open>uiz\<close>.
\<close>

theorem search_tag_case_sensitive:
  "searchPosts ''quiz'' tagged_state = Inr []
   \<and> searchPosts ''Quiz'' tagged_state = Inr []
   \<and> searchPosts ''uiz'' tagged_state = Inr [tagged_post]
   \<and> get_prop tagged_post ''tags'' = JArr [JStr ''Quiz'']
   \<and> str_includes (toLowerCase ''Quiz'') (toLowerCase ''quiz'')"
proof -
  have f: "get_prop tagged_post ''title'' = JStr ''Weekly event''"
    "get_prop tagged_post ''content'' = JStr ''Every Friday''"
    "get_prop tagged_post ''tags'' = JArr (map JStr [''Quiz''])"
    by (simp_all add: tagged_post_def get_prop_def)
  have l: "toLowerCase ''quiz'' = ''quiz''" "toLowerCase ''Quiz'' = ''quiz''" "toLowerCase ''uiz'' = ''uiz''"
    "toLowerCase ''Weekly event'' = ''weekly event''" "toLowerCase ''Every Friday'' = ''every friday''"
    by (simp_all add: toLowerCase_def lower_char_def char_of_def)
  have a: "searchPosts ''quiz'' tagged_state = Inr []"
    by (simp add: searchPosts_def tagged_state_def post_matches_strings[OF f] l)
  have b: "searchPosts ''Quiz'' tagged_state = Inr []"
    by (simp add: searchPosts_def tagged_state_def post_matches_strings[OF f] l)
  have c: "searchPosts ''uiz'' tagged_state = Inr [tagged_post]"
    by (simp add: searchPosts_def tagged_state_def post_matches_strings[OF f] l)
  have d: "str_includes (toLowerCase ''Quiz'') (toLowerCase ''quiz'')"
    unfolding l by simp
  from a b c d f(3) show ?thesis by simp
qed

section \<open>Categories\<close>

lemma set_set_elements: "set (set_elements xs) = set xs"
  by (simp add: set_elements_def)

lemma distinct_set_elements: "distinct (set_elements xs)"
  by (simp add: set_elements_def)

lemma getCategories_union:
  "set (getCategories st) =
     JStr ` set (categories st)
     \<union> {c. truthy c \<and> (\<exists>p\<in>set (posts st). get_prop p ''category'' = c)}
     \<union> {JStr ''Algemeen''}"
  and "distinct (getCategories st)"
  by (auto simp: getCategories_def set_set_elements distinct_set_elements)

lemma getCategories_used:
  "p \<in> set (posts st) \<Longrightarrow> truthy (get_prop p ''category'') \<Longrightarrow>
     get_prop p ''category'' \<in> set (getCategories st)"
  by (auto simp: getCategories_union)

lemma pg_getCategories_set:
  "set (pg_getCategories db) = set (categories_table db) \<union> {''Algemeen''}"
  by (auto simp: pg_getCategories_def)

text \<open>
  Claim C5, at an input where the code departs from it. The in-memory \<open>getCategories\<close>
  returns the registered names, the truthy categories of the posts and \<open>Algemeen\<close>, each
  once (the two lemmas above). The PostgreSQL \<open>getCategories\<close> reads only the
  \<open>categories\<close> table: a category that a stored post uses and that was never registered is
  missing from its result.
\<close>

theorem pg_getCategories_ignores_posts:
  "news_row \<in> set (posts_table news_pgdb)
   \<and> get_prop news_row ''category'' = JStr ''Nieuws''
   \<and> ''Nieuws'' \<notin> set (pg_getCategories news_pgdb)
   \<and> pg_getCategories news_pgdb =
        [''Algemeen'', ''Case Studies'', ''Horeca'', ''Onderwijs'', ''Product Updates'',
         ''Team Building'', ''Tips & Tricks'']"
proof -
  have a: "news_row \<in> set (posts_table news_pgdb)"
    by (simp add: news_pgdb_def)
  have b: "get_prop news_row ''category'' = JStr ''Nieuws''"
    by (simp add: news_row_def get_prop_def)
  have c: "''Nieuws'' \<notin> set (pg_getCategories news_pgdb)"
    by (simp add: pg_getCategories_set news_pgdb_def)
  have d: "pg_getCategories news_pgdb =
        [''Algemeen'', ''Case Studies'', ''Horeca'', ''Onderwijs'', ''Product Updates'',
         ''Team Building'', ''Tips & Tricks'']"
    by (simp add: pg_getCategories_def news_pgdb_def)
  from a b c d show ?thesis by blast
qed

lemma name_or_empty_string: "name_or_empty (JStr s) = Inr (str_trim s)"
  by (simp add: name_or_empty_def str_trim_def)

lemma addCategory_string:
  "(addCategory (JStr s) st = Inl InvalidArgument \<longleftrightarrow> str_trim s = [])
   \<and> (str_trim s \<noteq> [] \<and> list_ex (\<lambda>c. toLowerCase c = toLowerCase (str_trim s)) (categories st)
        \<longrightarrow> addCategory (JStr s) st = Inr (getCategories st, st))
   \<and> (str_trim s \<noteq> [] \<and> \<not> list_ex (\<lambda>c. toLowerCase c = toLowerCase (str_trim s)) (categories st)
        \<longrightarrow> (\<exists>cats. addCategory (JStr s) st
                       = Inr (cats, st\<lparr>categories := categories st @ [str_trim s]\<rparr>)))"
  by (simp add: addCategory_def name_or_empty_string InvalidArgument_def)

lemma pg_addCategory_string:
  "pg_addCategory (JStr s) db = Inl InvalidArgument \<longleftrightarrow> str_trim s = []"
  by (simp add: pg_addCategory_def name_or_empty_string InvalidArgument_def)

text \<open>
  Claim C6, at an input where the code departs from it. Both backends raise the
  "Category name required" error exactly for a name that is empty after trimming, and the
  in-memory backend leaves its categories unchanged when a stored name has the same
  lower-case form (the two lemmas above). The PostgreSQL backend relies on the
  \<open>UNIQUE\<close> constraint, which compares exact names: adding \<open>horeca\<close> next to \<open>Horeca\<close>
  inserts a second entry.
\<close>

theorem pg_addCategory_case_duplicate:
  "''Horeca'' \<in> set (categories_table news_pgdb)
   \<and> toLowerCase ''horeca'' = toLowerCase ''Horeca''
   \<and> pg_addCategory (JStr ''horeca'') news_pgdb =
        Inr ([''Algemeen'', ''Case Studies'', ''Horeca'', ''Onderwijs'', ''Product Updates'',
              ''Team Building'', ''Tips & Tricks'', ''horeca''],
             news_pgdb\<lparr>categories_table := categories_table news_pgdb @ [''horeca'']\<rparr>)"
proof -
  have a: "''Horeca'' \<in> set (categories_table news_pgdb)"
    by (simp add: news_pgdb_def)
  have b: "toLowerCase ''horeca'' = toLowerCase ''Horeca''"
    by (simp add: toLowerCase_def lower_char_def char_of_def)
  have t: "str_trim ''horeca'' = ''horeca''"
    by (simp add: str_trim_def is_space_def)
  have c: "pg_addCategory (JStr ''horeca'') news_pgdb =
        Inr ([''Algemeen'', ''Case Studies'', ''Horeca'', ''Onderwijs'', ''Product Updates'',
              ''Team Building'', ''Tips & Tricks'', ''horeca''],
             news_pgdb\<lparr>categories_table := categories_table news_pgdb @ [''horeca'']\<rparr>)"
    by (simp add: pg_addCategory_def name_or_empty_string t pg_getCategories_def news_pgdb_def)
  from a b c show ?thesis by blast
qed

section \<open>Slugs\<close>

text \<open>
  Claim C7, at an input where the code departs from it. The sample posts have pairwise
  different slugs. The in-memory \<open>createPost\<close> pushes the new post without looking at the
  stored slugs: created with the slug of the first sample post, the new post is stored
  next to it, and the store holds two posts with that slug. (In the PostgreSQL schema the
  column is \<open>UNIQUE\<close>.)
\<close>

theorem createPost_duplicate_slug:
  "distinct (map (\<lambda>p. get_prop p ''slug'') (posts seed_state))
   \<and> length (posts (snd (createPost sample_runtime sample_clock duplicate_slug_post seed_state))) = 4
   \<and> get_prop (posts (snd (createPost sample_runtime sample_clock duplicate_slug_post seed_state)) ! 0)
        ''slug'' = JStr ''perfecte-pubquiz-organiseren''
   \<and> get_prop (posts (snd (createPost sample_runtime sample_clock duplicate_slug_post seed_state)) ! 3)
        ''slug'' = JStr ''perfecte-pubquiz-organiseren''
   \<and> \<not> distinct (map (\<lambda>p. get_prop p ''slug'')
          (posts (snd (createPost sample_runtime sample_clock duplicate_slug_post seed_state))))"
proof -
  have s: "get_prop sample_post_1 ''slug'' = JStr ''perfecte-pubquiz-organiseren''"
    "get_prop sample_post_2 ''slug'' = JStr ''team-building-case-study''"
    "get_prop sample_post_3 ''slug'' = JStr ''horeca-quiz-meer-bezoekers''"
    by (simp_all add: sample_post_1_def sample_post_2_def sample_post_3_def get_prop_def)
  have p: "posts seed_state = [sample_post_1, sample_post_2, sample_post_3]"
    by (simp add: seed_state_def loadSampleData_def)
  obtain new where n: "createPost sample_runtime sample_clock duplicate_slug_post seed_state
      = (new, seed_state\<lparr>posts := posts seed_state @ [new]\<rparr>)"
    and ns: "get_prop new ''slug'' = JStr ''perfecte-pubquiz-organiseren''"
    by (simp add: createPost_def Let_def duplicate_slug_post_def get_prop_def map_add_def)
  have a: "distinct (map (\<lambda>p. get_prop p ''slug'') (posts seed_state))"
    by (simp add: p s)
  show ?thesis
    unfolding n using a by (simp add: p s ns)
qed

end
